theory Spec2Isabelle
  imports Main
begin

section \<open>Python text\<close>

text \<open>
  A Python \<open>str\<close> is a sequence of Unicode code points, so text is a list of
  natural numbers. String literals of the source are written \<open>lit ''...''\<close>; a code
  point outside ASCII (the pictographs of the progress messages) is written as a number.
\<close>

type_synonym str = "nat list"

abbreviation lit :: "string \<Rightarrow> str" where
  "lit \<equiv> map of_char"

text \<open>\<open>str.isspace\<close> for one code point: the white space that \<open>str.strip()\<close> removes.\<close>

definition py_isspace :: "nat \<Rightarrow> bool" where
  "py_isspace c \<longleftrightarrow>
     (9 \<le> c \<and> c \<le> 13) \<or> (28 \<le> c \<and> c \<le> 32) \<or> c = 133 \<or> c = 160 \<or> c = 5760 \<or>
     (8192 \<le> c \<and> c \<le> 8202) \<or> c = 8232 \<or> c = 8233 \<or> c = 8239 \<or> c = 8287 \<or> c = 12288"

definition strip :: "str \<Rightarrow> str" where
  "strip s = rev (dropWhile py_isspace (rev (dropWhile py_isspace s)))"

definition startswith :: "str \<Rightarrow> str \<Rightarrow> bool" where
  "startswith s p \<longleftrightarrow> take (length p) s = p"

definition endswith :: "str \<Rightarrow> str \<Rightarrow> bool" where
  "endswith s p \<longleftrightarrow> length p \<le> length s \<and> drop (length s - length p) s = p"

text \<open>\<open>sep.join(xs)\<close> on a list of texts.\<close>

fun join :: "str \<Rightarrow> str list \<Rightarrow> str" where
  "join sep [] = []"
| "join sep [x] = x"
| "join sep (x # y # ys) = x @ sep @ join sep (y # ys)"

text \<open>\<open>str(n)\<close> for a natural number: its decimal digits.\<close>

function dec :: "nat \<Rightarrow> str" where
  "dec n = (if n < 10 then [48 + n] else dec (n div 10) @ [48 + n mod 10])"
  by pat_completeness auto
termination
  by (relation "measure id") auto

declare dec.simps [simp del]

definition str_of_int :: "int \<Rightarrow> str" where
  "str_of_int i = (if i < 0 then 45 # dec (nat (- i)) else dec (nat i))"

section \<open>Decoded JSON values and the \<open>json\<close> module\<close>

text \<open>
  What \<open>json.loads\<close> returns: \<open>None\<close>, a \<open>bool\<close>, an \<open>int\<close>, a \<open>float\<close>, a \<open>str\<close>,
  a \<open>list\<close> or a \<open>dict\<close> with text keys. A dict keeps its keys in insertion order, so
  it is an association list. A float is kept as the literal it was read from: no
  statement below looks at its numeric value.
\<close>

datatype json =
    JNull
  | JBool bool
  | JInt int
  | JFloat str
  | JStr str
  | JArr "json list"
  | JObj "(str \<times> json) list"

text \<open>\<open>d[k] = v\<close>: an existing key keeps its place, a new key goes last.\<close>

fun dict_set :: "(str \<times> json) list \<Rightarrow> str \<Rightarrow> json \<Rightarrow> (str \<times> json) list" where
  "dict_set [] k v = [(k, v)]"
| "dict_set ((k', v') # d) k v = (if k' = k then (k, v) # d else (k', v') # dict_set d k v)"

text \<open>\<open>dict(pairs)\<close>, as the decoder builds an object from its members.\<close>

definition dict_of_pairs :: "(str \<times> json) list \<Rightarrow> (str \<times> json) list" where
  "dict_of_pairs ps = foldl (\<lambda>d (k, v). dict_set d k v) [] ps"

subsection \<open>Decoding\<close>

text \<open>
  The decoder follows the standard library's scanner: \<open>scanstring\<close> for a string body,
  \<open>scan_once\<close> for one value, \<open>JSONArray\<close> and \<open>JSONObject\<close> for the containers, and
  \<open>json.loads\<close> around them. The recursion of the scanner is bounded by a counter;
  \<open>Exhausted\<close> is the outcome of a counter that was too small, and
  \<open>json_loads\<close> starts with one that never is (lemma \<open>json_loads_never_exhausted\<close>).
\<close>

datatype 'a scan = Scanned 'a str | Invalid | Exhausted

definition json_ws :: "nat \<Rightarrow> bool" where
  "json_ws c \<longleftrightarrow> c = 32 \<or> c = 9 \<or> c = 10 \<or> c = 13"

definition skip_ws :: "str \<Rightarrow> str" where
  "skip_ws s = dropWhile json_ws s"

definition hexval :: "nat \<Rightarrow> nat option" where
  "hexval c =
     (if 48 \<le> c \<and> c \<le> 57 then Some (c - 48)
      else if 97 \<le> c \<and> c \<le> 102 then Some (c - 87)
      else if 65 \<le> c \<and> c \<le> 70 then Some (c - 55)
      else None)"

text \<open>The four hexadecimal digits of a \<open>\uXXXX\<close> escape.\<close>

fun hex4 :: "str \<Rightarrow> (nat \<times> str) option" where
  "hex4 (a # b # c # d # r) =
     (case (hexval a, hexval b, hexval c, hexval d) of
        (Some x, Some y, Some z, Some w) \<Rightarrow> Some (((x * 16 + y) * 16 + z) * 16 + w, r)
      | _ \<Rightarrow> None)"
| "hex4 _ = None"

text \<open>The character a backslash escape other than \<open>\u\<close> stands for.\<close>

definition backslash :: "nat \<Rightarrow> nat option" where
  "backslash e =
     (if e = 34 then Some 34
      else if e = 92 then Some 92
      else if e = 47 then Some 47
      else if e = 98 then Some 8
      else if e = 102 then Some 12
      else if e = 110 then Some 10
      else if e = 114 then Some 13
      else if e = 116 then Some 9
      else None)"

definition high_surrogate :: "nat \<Rightarrow> bool" where
  "high_surrogate u \<longleftrightarrow> 55296 \<le> u \<and> u \<le> 56319"

definition low_surrogate :: "nat \<Rightarrow> bool" where
  "low_surrogate u \<longleftrightarrow> 56320 \<le> u \<and> u \<le> 57343"

definition join_surrogates :: "nat \<Rightarrow> nat \<Rightarrow> nat" where
  "join_surrogates u1 u2 = 65536 + ((u1 - 55296) * 1024 + (u2 - 56320))"

definition cons_char :: "nat \<Rightarrow> (str \<times> str) option \<Rightarrow> (str \<times> str) option" where
  "cons_char c r = (case r of None \<Rightarrow> None | Some (t, rest) \<Rightarrow> Some (c # t, rest))"

text \<open>
  \<open>scanstring\<close>, strict: the text after an opening quote, up to the closing one. A control
  character, an unknown escape and the end of the text are errors (\<open>None\<close>).
\<close>

fun scanstring :: "str \<Rightarrow> (str \<times> str) option" where
  "scanstring [] = None"
| "scanstring (c # cs) =
     (if c = 34 then Some ([], cs)
      else if c = 92 then
        (case cs of
           [] \<Rightarrow> None
         | e # es \<Rightarrow>
             if e = 117 then
               (case es of
                  a # b # x # d # r \<Rightarrow>
                    (case hex4 [a, b, x, d] of
                       None \<Rightarrow> None
                     | Some (u, _) \<Rightarrow>
                         if high_surrogate u then
                           (case r of
                              b1 # u1 # a2 # b2 # x2 # d2 # r2 \<Rightarrow>
                                if b1 = 92 \<and> u1 = 117 then
                                  (case hex4 [a2, b2, x2, d2] of
                                     None \<Rightarrow> None
                                   | Some (u2, _) \<Rightarrow>
                                       if low_surrogate u2
                                       then cons_char (join_surrogates u u2) (scanstring r2)
                                       else cons_char u (scanstring r))
                                else cons_char u (scanstring r)
                            | _ \<Rightarrow> cons_char u (scanstring r))
                         else cons_char u (scanstring r))
                | _ \<Rightarrow> None)
             else
               (case backslash e of
                  None \<Rightarrow> None
                | Some ch \<Rightarrow> cons_char ch (scanstring es)))
      else if c < 32 then None
      else cons_char c (scanstring cs))"

definition is_digit :: "nat \<Rightarrow> bool" where
  "is_digit c \<longleftrightarrow> 48 \<le> c \<and> c \<le> 57"

definition int_of_digits :: "str \<Rightarrow> int" where
  "int_of_digits ds = foldl (\<lambda>a d. 10 * a + int (d - 48)) 0 ds"

text \<open>
  The number pattern of the scanner,
  \<^verbatim>\<open>(-?(?:0|[1-9][0-9]*))(\.[0-9]+)?([eE][-+]?[0-9]+)?\<close>: an integer part, then a
  fraction and an exponent where they are complete. Without either the number is an
  \<open>int\<close>, otherwise a \<open>float\<close>.
\<close>

definition match_integer :: "str \<Rightarrow> (str \<times> str) option" where
  "match_integer s =
     (let (sign, s1) = (case s of [] \<Rightarrow> ([], s) | c # r \<Rightarrow> if c = 45 then ([45], r) else ([], s))
      in case s1 of
           [] \<Rightarrow> None
         | d # r \<Rightarrow>
             if d = 48 then Some (sign @ [48], r)
             else if 49 \<le> d \<and> d \<le> 57
             then Some (sign @ d # takeWhile is_digit r, dropWhile is_digit r)
             else None)"

definition match_frac :: "str \<Rightarrow> str \<times> str" where
  "match_frac s =
     (case s of
        [] \<Rightarrow> ([], s)
      | c # r \<Rightarrow>
          if c = 46 \<and> r \<noteq> [] \<and> is_digit (hd r)
          then (46 # takeWhile is_digit r, dropWhile is_digit r)
          else ([], s))"

definition match_exp :: "str \<Rightarrow> str \<times> str" where
  "match_exp s =
     (case s of
        [] \<Rightarrow> ([], s)
      | c # r \<Rightarrow>
          if c = 101 \<or> c = 69 then
            (let (sign, r1) =
                   (case r of [] \<Rightarrow> ([], r) | g # r' \<Rightarrow> if g = 43 \<or> g = 45 then ([g], r') else ([], r))
             in if r1 \<noteq> [] \<and> is_digit (hd r1)
                then (c # sign @ takeWhile is_digit r1, dropWhile is_digit r1)
                else ([], s))
          else ([], s))"

definition match_number :: "str \<Rightarrow> (json \<times> str) option" where
  "match_number s =
     (case match_integer s of
        None \<Rightarrow> None
      | Some (integer, r) \<Rightarrow>
          (let (frac, r1) = match_frac r; (ex, r2) = match_exp r1
           in if frac = [] \<and> ex = []
              then Some (JInt (case integer of
                                 [] \<Rightarrow> 0
                               | c # ds \<Rightarrow> if c = 45 then - int_of_digits ds else int_of_digits integer), r2)
              else Some (JFloat (integer @ frac @ ex), r2)))"

text \<open>
  \<open>scan_once\<close> reads one value at the start of the text; \<open>JSONArray\<close> and
  \<open>JSONObject\<close> read a container after its opening bracket, and loop over its items.
  The bodies come first, with the scanner's recursive calls as arguments.
\<close>

definition scan_scalar :: "str \<Rightarrow> json scan" where
  "scan_scalar s =
     (if startswith s (lit ''null'') then Scanned JNull (drop 4 s)
      else if startswith s (lit ''true'') then Scanned (JBool True) (drop 4 s)
      else if startswith s (lit ''false'') then Scanned (JBool False) (drop 5 s)
      else
        (case match_number s of
           Some (v, r) \<Rightarrow> Scanned v r
         | None \<Rightarrow>
             if startswith s (lit ''NaN'') then Scanned (JFloat (lit ''NaN'')) (drop 3 s)
             else if startswith s (lit ''Infinity'')
             then Scanned (JFloat (lit ''Infinity'')) (drop 8 s)
             else if startswith s (lit ''-Infinity'')
             then Scanned (JFloat (lit ''-Infinity'')) (drop 9 s)
             else Invalid))"

definition scan_value :: "(str \<Rightarrow> json scan) \<Rightarrow> (str \<Rightarrow> json scan) \<Rightarrow> str \<Rightarrow> json scan" where
  "scan_value object array s =
     (case s of
        [] \<Rightarrow> Invalid
      | c # cs \<Rightarrow>
          if c = 34 then
            (case scanstring cs of None \<Rightarrow> Invalid | Some (t, r) \<Rightarrow> Scanned (JStr t) r)
          else if c = 123 then object cs
          else if c = 91 then array cs
          else scan_scalar s)"

definition array_open :: "(str \<Rightarrow> (json list) scan) \<Rightarrow> str \<Rightarrow> json scan" where
  "array_open values s =
     (case skip_ws s of
        [] \<Rightarrow> Invalid
      | c # r \<Rightarrow>
          if c = 93 then Scanned (JArr []) r
          else
            (case values (c # r) of
               Scanned vs r' \<Rightarrow> Scanned (JArr vs) r'
             | Invalid \<Rightarrow> Invalid
             | Exhausted \<Rightarrow> Exhausted))"

definition array_step ::
  "(str \<Rightarrow> json scan) \<Rightarrow> (str \<Rightarrow> (json list) scan) \<Rightarrow> str \<Rightarrow> (json list) scan" where
  "array_step once values s =
     (case once s of
        Invalid \<Rightarrow> Invalid
      | Exhausted \<Rightarrow> Exhausted
      | Scanned v r \<Rightarrow>
          (case skip_ws r of
             [] \<Rightarrow> Invalid
           | c # r' \<Rightarrow>
               if c = 93 then Scanned [v] r'
               else if c = 44 then
                 (case values (skip_ws r') of
                    Scanned vs r'' \<Rightarrow> Scanned (v # vs) r''
                  | Invalid \<Rightarrow> Invalid
                  | Exhausted \<Rightarrow> Exhausted)
               else Invalid))"

definition object_open :: "(str \<Rightarrow> ((str \<times> json) list) scan) \<Rightarrow> str \<Rightarrow> json scan" where
  "object_open pairs s =
     (case skip_ws s of
        [] \<Rightarrow> Invalid
      | c # r \<Rightarrow>
          if c = 125 then Scanned (JObj []) r
          else if c = 34 then
            (case pairs r of
               Scanned ps r' \<Rightarrow> Scanned (JObj (dict_of_pairs ps)) r'
             | Invalid \<Rightarrow> Invalid
             | Exhausted \<Rightarrow> Exhausted)
          else Invalid)"

definition object_step ::
  "(str \<Rightarrow> json scan) \<Rightarrow> (str \<Rightarrow> ((str \<times> json) list) scan) \<Rightarrow> str
     \<Rightarrow> ((str \<times> json) list) scan" where
  "object_step once pairs s =
     (case scanstring s of
        None \<Rightarrow> Invalid
      | Some (key, r) \<Rightarrow>
          (case skip_ws r of
             [] \<Rightarrow> Invalid
           | c # r1 \<Rightarrow>
               if c = 58 then
                 (case once (skip_ws r1) of
                    Invalid \<Rightarrow> Invalid
                  | Exhausted \<Rightarrow> Exhausted
                  | Scanned v r2 \<Rightarrow>
                      (case skip_ws r2 of
                         [] \<Rightarrow> Invalid
                       | c2 # r3 \<Rightarrow>
                           if c2 = 125 then Scanned [(key, v)] r3
                           else if c2 = 44 then
                             (case skip_ws r3 of
                                [] \<Rightarrow> Invalid
                              | c3 # r4 \<Rightarrow>
                                  if c3 = 34 then
                                    (case pairs r4 of
                                       Scanned ps r5 \<Rightarrow> Scanned ((key, v) # ps) r5
                                     | Invalid \<Rightarrow> Invalid
                                     | Exhausted \<Rightarrow> Exhausted)
                                  else Invalid)
                           else Invalid))
               else Invalid))"

fun scan_once :: "nat \<Rightarrow> str \<Rightarrow> json scan"
  and JSONArray :: "nat \<Rightarrow> str \<Rightarrow> json scan"
  and array_values :: "nat \<Rightarrow> str \<Rightarrow> (json list) scan"
  and JSONObject :: "nat \<Rightarrow> str \<Rightarrow> json scan"
  and object_pairs :: "nat \<Rightarrow> str \<Rightarrow> ((str \<times> json) list) scan"
where
  "scan_once 0 s = Exhausted"
| "scan_once (Suc n) s = scan_value (JSONObject n) (JSONArray n) s"
| "JSONArray n s = array_open (array_values n) s"
| "array_values 0 s = Exhausted"
| "array_values (Suc n) s = array_step (scan_once n) (array_values n) s"
| "JSONObject n s = object_open (object_pairs n) s"
| "object_pairs 0 s = Exhausted"
| "object_pairs (Suc n) s = object_step (scan_once n) (object_pairs n) s"

section \<open>Exceptions\<close>

text \<open>
  The exceptions the pipeline can meet. \<open>JSONDecodeError\<close> is a subclass of
  \<open>ValueError\<close>; \<open>AttributeError\<close> and \<open>TypeError\<close> carry their message;
  \<open>ServiceError\<close> is whatever a call to the search or the reasoning service raises.
\<close>

datatype exn =
    JSONDecodeError
  | AttributeError str
  | TypeError str
  | ServiceError str

text \<open>
  \<open>json.loads\<close>: a text that starts with a byte order mark is refused; then one value,
  white space around it, and nothing else.
\<close>

definition json_loads :: "str \<Rightarrow> exn + json" where
  "json_loads s =
     (if startswith s [65279] then Inl JSONDecodeError
      else
        (case scan_once (2 * length s + 1) (skip_ws s) of
           Scanned v r \<Rightarrow> if skip_ws r = [] then Inr v else Inl JSONDecodeError
         | Invalid \<Rightarrow> Inl JSONDecodeError
         | Exhausted \<Rightarrow> Inl JSONDecodeError))"

subsection \<open>Encoding\<close>

definition hexdigit :: "nat \<Rightarrow> nat" where
  "hexdigit v = (if v < 10 then 48 + v else 87 + v)"

definition u_escape :: "nat \<Rightarrow> str" where
  "u_escape n =
     [92, 117, hexdigit (n div 4096), hexdigit (n div 256 mod 16),
      hexdigit (n div 16 mod 16), hexdigit (n mod 16)]"

text \<open>
  One character of \<open>py_encode_basestring_ascii\<close>: the quote, the backslash and
  everything outside the printable ASCII range are escaped, a code point above the basic
  plane as a surrogate pair.
\<close>

definition escape_char :: "nat \<Rightarrow> str" where
  "escape_char c =
     (if c = 34 then [92, 34]
      else if c = 92 then [92, 92]
      else if c = 10 then [92, 110]
      else if c = 13 then [92, 114]
      else if c = 9 then [92, 116]
      else if c = 12 then [92, 102]
      else if c = 8 then [92, 98]
      else if 32 \<le> c \<and> c \<le> 126 then [c]
      else if c < 65536 then u_escape c
      else u_escape (55296 + (c - 65536) div 1024 mod 1024)
           @ u_escape (56320 + (c - 65536) mod 1024))"

definition encode_basestring_ascii :: "str \<Rightarrow> str" where
  "encode_basestring_ascii s = 34 # concat (map escape_char s) @ [34]"

text \<open>
  \<open>json.dumps\<close> with its defaults: \<open>", "\<close> between items, \<open>": "\<close> after a key, no
  sorting of keys. A float is written as the literal it was read from.
\<close>

fun json_dumps :: "json \<Rightarrow> str" where
  "json_dumps JNull = lit ''null''"
| "json_dumps (JBool b) = (if b then lit ''true'' else lit ''false'')"
| "json_dumps (JInt i) = str_of_int i"
| "json_dumps (JFloat l) = l"
| "json_dumps (JStr s) = encode_basestring_ascii s"
| "json_dumps (JArr vs) = [91] @ join (lit '', '') (map json_dumps vs) @ [93]"
| "json_dumps (JObj d) =
     [123] @ join (lit '', '')
       (map (\<lambda>(k, v). encode_basestring_ascii k @ lit '': '' @ json_dumps v) d) @ [125]"

section \<open>Python operations on decoded values\<close>

definition type_name :: "json \<Rightarrow> str" where
  "type_name x =
     (case x of
        JNull \<Rightarrow> lit ''NoneType''
      | JBool _ \<Rightarrow> lit ''bool''
      | JInt _ \<Rightarrow> lit ''int''
      | JFloat _ \<Rightarrow> lit ''float''
      | JStr _ \<Rightarrow> lit ''str''
      | JArr _ \<Rightarrow> lit ''list''
      | JObj _ \<Rightarrow> lit ''dict'')"

text \<open>\<open>x.get(k, default)\<close>: only a dict has the method.\<close>

definition py_get :: "json \<Rightarrow> str \<Rightarrow> json \<Rightarrow> exn + json" where
  "py_get x k dflt =
     (case x of
        JObj d \<Rightarrow> Inr (case map_of d k of None \<Rightarrow> dflt | Some v \<Rightarrow> v)
      | _ \<Rightarrow> Inl (AttributeError
                 ([39] @ type_name x @ [39] @ lit '' object has no attribute 'get'' @ [39])))"

text \<open>
  \<open>for t in x\<close>: the items of a list, the characters of a text, the keys of a dict;
  nothing else can be iterated.
\<close>

definition py_iter :: "json \<Rightarrow> exn + json list" where
  "py_iter x =
     (case x of
        JArr vs \<Rightarrow> Inr vs
      | JStr t \<Rightarrow> Inr (map (\<lambda>c. JStr [c]) t)
      | JObj d \<Rightarrow> Inr (map (\<lambda>(k, v). JStr k) d)
      | _ \<Rightarrow> Inl (TypeError ([39] @ type_name x @ [39] @ lit '' object is not iterable'')))"

text \<open>\<open>sep.join(x)\<close>: every item has to be a text.\<close>

fun str_items :: "nat \<Rightarrow> json list \<Rightarrow> exn + str list" where
  "str_items i [] = Inr []"
| "str_items i (v # vs) =
     (case v of
        JStr t \<Rightarrow> (case str_items (Suc i) vs of Inl e \<Rightarrow> Inl e | Inr ts \<Rightarrow> Inr (t # ts))
      | _ \<Rightarrow> Inl (TypeError (lit ''sequence item '' @ dec i @ lit '': expected str instance, ''
                               @ type_name v @ lit '' found'')))"

definition py_join :: "str \<Rightarrow> json \<Rightarrow> exn + str" where
  "py_join sep x =
     (case py_iter x of
        Inl _ \<Rightarrow> Inl (TypeError (lit ''can only join an iterable''))
      | Inr vs \<Rightarrow> (case str_items 0 vs of Inl e \<Rightarrow> Inl e | Inr ts \<Rightarrow> Inr (join sep ts)))"

text \<open>
  \<open>f"{t}"\<close>: a text stands for itself, \<open>None\<close>, a \<open>bool\<close> and an \<open>int\<close> have fixed
  renderings; for a float, a list and a dict the rendering goes through \<open>repr\<close>, which is
  a parameter (\<open>render\<close>).
\<close>

definition format :: "(json \<Rightarrow> str) \<Rightarrow> json \<Rightarrow> str" where
  "format render x =
     (case x of
        JStr t \<Rightarrow> t
      | JNull \<Rightarrow> lit ''None''
      | JBool b \<Rightarrow> (if b then lit ''True'' else lit ''False'')
      | JInt i \<Rightarrow> str_of_int i
      | _ \<Rightarrow> render x)"

section \<open>The services and the stage results\<close>

text \<open>
  A search hit as Tavily returns it: a dict whose keys \<open>title\<close>, \<open>url\<close>, \<open>content\<close> and
  \<open>snippet\<close> may each be missing.
\<close>

record hit =
  title :: "str option"
  url :: "str option"
  content :: "str option"
  snippet :: "str option"

record article =
  headline :: str
  source :: str
  summary :: str

text \<open>
  The world outside the program: \<open>tavily\<close> is the search request for a query (it raises,
  or returns the body's \<open>results\<close> entry when the body has one), \<open>reka\<close> is one chat
  completion for a message (it raises, or returns the reply), \<open>repr\<close> is Python's
  rendering of a decoded float, list or dict.
\<close>

record env =
  tavily :: "str \<Rightarrow> exn + hit list option"
  reka :: "str \<Rightarrow> exn + str"
  repr :: "json \<Rightarrow> str"

definition MAX_ARTICLES :: nat where
  "MAX_ARTICLES = 5"

text \<open>
  What a run puts on its queue. The \<open>origin\<close> of a log message records the stage that
  the message belongs to; \<open>Executor\<close> marks the run's own start and completion messages.
\<close>

datatype origin = Executor | Data | Trend | Strategy | Risk | Voice

datatype event = Log origin str | Error str | Done json

text \<open>
  A piece of the pipeline emits events and then returns a value or raises. Events that
  were emitted before an exception stay emitted.
\<close>

type_synonym 'a run = "event list \<times> (exn + 'a)"

definition ok :: "'a \<Rightarrow> 'a run" where
  "ok x = ([], Inr x)"

definition raise :: "exn \<Rightarrow> 'a run" where
  "raise e = ([], Inl e)"

definition call :: "exn + 'a \<Rightarrow> 'a run" where
  "call r = ([], r)"

definition put :: "event \<Rightarrow> unit run" where
  "put ev = ([ev], Inr ())"

definition log :: "origin \<Rightarrow> str \<Rightarrow> unit run" where
  "log og msg = put (Log og msg)"

definition and_then :: "'a run \<Rightarrow> ('a \<Rightarrow> 'b run) \<Rightarrow> 'b run" where
  "and_then m f =
     (case m of
        (out, Inl e) \<Rightarrow> (out, Inl e)
      | (out, Inr x) \<Rightarrow> (case f x of (out', r) \<Rightarrow> (out @ out', r)))"

fun log_all :: "origin \<Rightarrow> str list \<Rightarrow> unit run" where
  "log_all og [] = ok ()"
| "log_all og (m # ms) = and_then (log og m) (\<lambda>_. log_all og ms)"

section \<open>\<open>market_intel.py\<close>\<close>

text \<open>\<open>_chat\<close>: one request to the reasoning service; the reply is stripped.\<close>

definition chat :: "env \<Rightarrow> str \<Rightarrow> str \<Rightarrow> exn + str" where
  "chat env system user =
     (case reka env (lit ''System Instruction: '' @ system @ lit ''\<newline>\<newline>User Question: '' @ user) of
        Inl e \<Rightarrow> Inl e
      | Inr reply \<Rightarrow> Inr (strip reply))"

definition fence :: str where
  "fence = lit ''```''"

text \<open>\<open>_parse_json\<close>: strip, drop an opening fence with its tag, drop a closing fence, decode.\<close>

definition parse_json :: "str \<Rightarrow> exn + json" where
  "parse_json raw =
     (let text = strip raw;
          text = (if startswith text fence
                  then (let text = drop 3 text;
                            text = (if startswith text (lit ''json'') then drop 4 text else text)
                        in strip text)
                  else text);
          text = (if endswith text fence then strip (take (length text - 3) text) else text)
      in json_loads text)"

text \<open>The handler \<open>except (json.JSONDecodeError, ValueError)\<close> of the three stages.\<close>

definition is_ValueError :: "exn \<Rightarrow> bool" where
  "is_ValueError e = (case e of JSONDecodeError \<Rightarrow> True | _ \<Rightarrow> False)"

definition unable :: json where
  "unable = JStr (lit ''Unable to parse structured output.'')"

definition parse_or :: "str \<Rightarrow> json \<Rightarrow> json run" where
  "parse_or raw fallback =
     (case parse_json raw of
        Inr result \<Rightarrow> ok result
      | Inl e \<Rightarrow> if is_ValueError e then ok fallback else raise e)"

text \<open>The lines \<open>f"  Trend {i}: {t}"\<close> of the loops over \<open>enumerate(..., 1)\<close>.\<close>

definition numbered :: "env \<Rightarrow> str \<Rightarrow> json list \<Rightarrow> str list" where
  "numbered env label items =
     map (\<lambda>(i, t). lit ''  '' @ label @ lit '' '' @ dec i @ lit '': '' @ format (repr env) t)
       (enumerate 1 items)"

text \<open>The bullet lists \<open>"\n".join(f"- {t}" for t in d.get(key, []))\<close> of the prompts.\<close>

definition bullets :: "env \<Rightarrow> json \<Rightarrow> str \<Rightarrow> exn + str" where
  "bullets env d key =
     (case py_get d key (JArr []) of
        Inl e \<Rightarrow> Inl e
      | Inr v \<Rightarrow>
          (case py_iter v of
             Inl e \<Rightarrow> Inl e
           | Inr items \<Rightarrow> Inr (join [10] (map (\<lambda>t. lit ''- '' @ format (repr env) t) items))))"

subsection \<open>Agent 1: the Data stage\<close>

text \<open>
  \<open>item.get("title", "No title")\<close>, \<open>item.get("url", "Unknown source")\<close> and
  \<open>item.get("content", item.get("snippet", ""))\<close>.
\<close>

definition hit_headline :: "hit \<Rightarrow> str" where
  "hit_headline item = (case title item of None \<Rightarrow> lit ''No title'' | Some t \<Rightarrow> t)"

definition hit_source :: "hit \<Rightarrow> str" where
  "hit_source item = (case url item of None \<Rightarrow> lit ''Unknown source'' | Some u \<Rightarrow> u)"

definition hit_content :: "hit \<Rightarrow> str" where
  "hit_content item =
     (case content item of
        Some c \<Rightarrow> c
      | None \<Rightarrow> (case snippet item of None \<Rightarrow> [] | Some t \<Rightarrow> t))"

definition summary_system :: str where
  "summary_system =
     lit ''You are a concise financial news analyst. Summarise the article in one sentence.''"

definition summary_user :: "str \<Rightarrow> str \<Rightarrow> str" where
  "summary_user head body =
     lit ''Article title: '' @ head @ lit ''\<newline>\<newline>Content: '' @ take 1500 body"

text \<open>The loop over \<open>raw_results[:MAX_ARTICLES]\<close>: one summary request per hit.\<close>

fun summarise :: "env \<Rightarrow> hit list \<Rightarrow> (article list) run" where
  "summarise env [] = ok []"
| "summarise env (item # items) =
     (let headline = hit_headline item;
          source = hit_source item;
          content = hit_content item
      in and_then
           (call (chat env summary_system (summary_user headline content)))
           (\<lambda>summary.
              and_then (log Data (lit ''  '' @ [10004] @ lit '' '' @ take 80 headline))
                (\<lambda>_. and_then (summarise env items)
                   (\<lambda>articles.
                      ok (\<lparr>headline = headline, source = source, summary = summary\<rparr> # articles)))))"

definition data_agent :: "env \<Rightarrow> str \<Rightarrow> (article list) run" where
  "data_agent env topic =
     and_then
       (log Data (lit ''[Data Agent] '' @ [128269] @ lit '' Searching news for: '' @ [39] @ topic
                  @ [39] @ lit '' ...''))
       (\<lambda>_. and_then (call (tavily env topic))
          (\<lambda>body.
             let raw_results = (case body of None \<Rightarrow> [] | Some hits \<Rightarrow> hits)
             in if raw_results = []
                then and_then
                       (log Data (lit ''[Data Agent] '' @ [9888, 65039]
                                  @ lit ''  No results returned from Tavily.''))
                       (\<lambda>_. ok [])
                else summarise env (take MAX_ARTICLES raw_results)))"

subsection \<open>Agent 2: the Trend stage\<close>

definition trend_fallback :: "str \<Rightarrow> json" where
  "trend_fallback raw =
     JObj [(lit ''trends'', JArr [JStr raw]), (lit ''sentiment_shifts'', JArr [unable])]"

definition trend_system :: str where
  "trend_system =
     lit ''You are a market research analyst specialising in trend detection. ''
     @ lit ''Return ONLY valid JSON with two keys: ''
     @ lit ''\"trends\" (list of 3 strings) and ''
     @ lit ''\"sentiment_shifts\" (list of strings describing sentiment changes). ''
     @ lit ''No markdown, no code fences.''"

definition trend_user :: "str \<Rightarrow> str" where
  "trend_user brief =
     lit ''News summaries:\<newline>'' @ brief
     @ lit ''\<newline>\<newline>Identify 3 major market trends and any notable sentiment shifts.''"

definition trend_brief :: "article list \<Rightarrow> str" where
  "trend_brief articles =
     join [10]
       (map (\<lambda>a. lit ''- ['' @ source a @ lit ''] '' @ headline a @ lit '': '' @ summary a) articles)"

definition trend_agent :: "env \<Rightarrow> article list \<Rightarrow> json run" where
  "trend_agent env articles =
     and_then
       (log Trend (lit ''[Trend Agent] '' @ [128200] @ lit '' Detecting trends and sentiment shifts ...''))
       (\<lambda>_.
          let brief = trend_brief articles
          in and_then
               (call (chat env trend_system (trend_user brief)))
               (\<lambda>raw.
                  and_then (parse_or raw (trend_fallback raw))
                    (\<lambda>result.
                       and_then (call (py_get result (lit ''trends'') (JArr [])))
                         (\<lambda>trends.
                            and_then (call (py_iter trends))
                              (\<lambda>items.
                                 and_then (log_all Trend (numbered env (lit ''Trend'') items))
                                   (\<lambda>_. ok result))))))"

subsection \<open>Agent 3: the Strategy stage\<close>

definition strategy_fallback :: "str \<Rightarrow> json" where
  "strategy_fallback raw =
     JObj [(lit ''opportunities'', JArr [JStr raw]), (lit ''recommendations'', JArr [unable])]"

definition strategy_system :: str where
  "strategy_system =
     lit ''You are a senior business strategist. ''
     @ lit ''Return ONLY valid JSON with two keys: ''
     @ lit ''\"opportunities\" (list of 3 business opportunity strings) and ''
     @ lit ''\"recommendations\" (list of 3 strategic recommendation strings). ''
     @ lit ''No markdown, no code fences.''"

definition strategy_user :: "str \<Rightarrow> str \<Rightarrow> str" where
  "strategy_user trend_text sentiment_text =
     lit ''Market Trends:\<newline>'' @ trend_text @ lit ''\<newline>\<newline>''
     @ lit ''Sentiment Shifts:\<newline>'' @ sentiment_text @ lit ''\<newline>\<newline>''
     @ lit ''Generate concrete business opportunities and strategic recommendations.''"

definition strategy_agent :: "env \<Rightarrow> json \<Rightarrow> json run" where
  "strategy_agent env trend_data =
     and_then
       (log Strategy
          (lit ''[Strategy Agent] '' @ [128161] @ lit '' Generating strategic opportunities ...''))
       (\<lambda>_.
          and_then (call (bullets env trend_data (lit ''trends'')))
            (\<lambda>trend_text.
               and_then (call (bullets env trend_data (lit ''sentiment_shifts'')))
                 (\<lambda>sentiment_text.
                    and_then
                      (call (chat env strategy_system (strategy_user trend_text sentiment_text)))
                      (\<lambda>raw.
                         and_then (parse_or raw (strategy_fallback raw))
                           (\<lambda>result.
                              and_then (call (py_get result (lit ''opportunities'') (JArr [])))
                                (\<lambda>opportunities.
                                   and_then (call (py_iter opportunities))
                                     (\<lambda>items.
                                        and_then
                                          (log_all Strategy (numbered env (lit ''Opportunity'') items))
                                          (\<lambda>_. ok result))))))))"

subsection \<open>Agent 4: the Risk stage\<close>

definition risk_fallback :: "str \<Rightarrow> json" where
  "risk_fallback raw =
     JObj [(lit ''risks'', JArr [JStr raw]), (lit ''weak_signals'', JArr [unable]),
           (lit ''uncertainties'', JArr [unable])]"

definition risk_system :: str where
  "risk_system =
     lit ''You are a risk analyst specialising in emerging market threats. ''
     @ lit ''Return ONLY valid JSON with three keys: ''
     @ lit ''\"risks\" (list of 3 market risk strings), ''
     @ lit ''\"weak_signals\" (list of 2 early warning signals), and ''
     @ lit ''\"uncertainties\" (list of 2 major uncertainty factors). ''
     @ lit ''No markdown, no code fences.''"

definition risk_user :: "str \<Rightarrow> str \<Rightarrow> str" where
  "risk_user trend_text strategy_text =
     lit ''Market Trends:\<newline>'' @ trend_text @ lit ''\<newline>\<newline>''
     @ lit ''Proposed Strategies:\<newline>'' @ strategy_text @ lit ''\<newline>\<newline>''
     @ lit ''Identify the key risks, weak signals, and uncertainties.''"

definition risk_agent :: "env \<Rightarrow> json \<Rightarrow> json \<Rightarrow> json run" where
  "risk_agent env trend_data strategy_data =
     and_then
       (log Risk (lit ''[Risk Agent] '' @ [9888, 65039] @ lit ''  Identifying risks and weak signals ...''))
       (\<lambda>_.
          and_then (call (bullets env trend_data (lit ''trends'')))
            (\<lambda>trend_text.
               and_then (call (bullets env strategy_data (lit ''recommendations'')))
                 (\<lambda>strategy_text.
                    and_then
                      (call (chat env risk_system (risk_user trend_text strategy_text)))
                      (\<lambda>raw.
                         and_then (parse_or raw (risk_fallback raw))
                           (\<lambda>result.
                              and_then (call (py_get result (lit ''risks'') (JArr [])))
                                (\<lambda>risks.
                                   and_then (call (py_iter risks))
                                     (\<lambda>items.
                                        and_then (log_all Risk (numbered env (lit ''Risk'') items))
                                          (\<lambda>_. ok result))))))))"

subsection \<open>The Voice stage\<close>

definition voice_system :: str where
  "voice_system =
     lit ''You are a professional radio broadcaster. ''
     @ lit ''Convert the market intelligence report into a concise 60-second verbal briefing. ''
     @ lit ''Use natural, spoken language.''"

definition voice_agent :: "env \<Rightarrow> str \<Rightarrow> str run" where
  "voice_agent env report_text =
     and_then (log Voice (lit ''[Voice Agent] '' @ [127897, 65039] @ lit ''  Writing voice script ...''))
       (\<lambda>_.
          call (chat env voice_system report_text))"

section \<open>\<open>app.py\<close>\<close>

text \<open>\<open>_sse\<close>: the wire format of one message; the newlines of the data are escaped.\<close>

definition sse :: "str \<Rightarrow> str \<Rightarrow> str" where
  "sse event data =
     (let payload = concat (map (\<lambda>c. if c = 10 then [92, 110] else [c]) data)
      in lit ''event: '' @ event @ lit ''\<newline>data: '' @ payload @ lit ''\<newline>\<newline>'')"

text \<open>
  The queue of a run holds its messages and, last, the sentinel \<open>None\<close>. A message is
  kept as the event it stands for; \<open>wire\<close> is the text that the source puts on the queue
  for it.
\<close>

definition wire :: "event \<Rightarrow> str" where
  "wire ev =
     (case ev of
        Log _ msg \<Rightarrow> sse (lit ''log'') msg
      | Error msg \<Rightarrow> sse (lit ''error'') msg
      | Done report \<Rightarrow> sse (lit ''done'') (json_dumps report))"

definition emit :: "origin \<Rightarrow> str \<Rightarrow> unit run" where
  "emit og msg = put (Log og msg)"

definition article_json :: "article \<Rightarrow> json" where
  "article_json a =
     JObj [(lit ''headline'', JStr (headline a)), (lit ''source'', JStr (source a)),
           (lit ''summary'', JStr (summary a))]"

text \<open>The brief that the Voice stage is given.\<close>

definition voice_brief :: "str \<Rightarrow> json \<Rightarrow> json \<Rightarrow> json \<Rightarrow> exn + str" where
  "voice_brief topic trends strategy risks =
     (case py_get trends (lit ''trends'') (JArr []) of
        Inl e \<Rightarrow> Inl e
      | Inr ts \<Rightarrow>
          (case py_join (lit '' | '') ts of
             Inl e \<Rightarrow> Inl e
           | Inr trend_part \<Rightarrow>
               (case py_get strategy (lit ''opportunities'') (JArr []) of
                  Inl e \<Rightarrow> Inl e
                | Inr os \<Rightarrow>
                    (case py_join (lit ''; '') os of
                       Inl e \<Rightarrow> Inl e
                     | Inr opportunity_part \<Rightarrow>
                         (case py_get risks (lit ''risks'') (JArr []) of
                            Inl e \<Rightarrow> Inl e
                          | Inr rs \<Rightarrow>
                              (case py_join (lit ''; '') rs of
                                 Inl e \<Rightarrow> Inl e
                               | Inr risk_part \<Rightarrow>
                                   Inr (lit ''Market Intelligence on '' @ [39] @ topic @ [39] @ lit '': ''
                                        @ trend_part @ lit ''. ''
                                        @ lit ''Opportunities: '' @ opportunity_part @ lit ''. ''
                                        @ lit ''Key Risks: '' @ risk_part)))))))"

definition optional_voice :: "env \<Rightarrow> str \<Rightarrow> bool \<Rightarrow> json \<Rightarrow> json \<Rightarrow> json \<Rightarrow> json run" where
  "optional_voice env topic include_voice trends strategy risks =
     (if include_voice
      then and_then (emit Voice ([127897, 65039] @ lit ''  [Voice Agent] Writing broadcast script...''))
             (\<lambda>_. and_then (call (voice_brief topic trends strategy risks))
                (\<lambda>brief. and_then (voice_agent env brief) (\<lambda>script. ok (JStr script))))
      else ok JNull)"

definition build_report :: "str \<Rightarrow> article list \<Rightarrow> json \<Rightarrow> json \<Rightarrow> json \<Rightarrow> json \<Rightarrow> json" where
  "build_report topic articles trends strategy risks voice_script =
     JObj [(lit ''topic'', JStr topic),
           (lit ''articles'', JArr (map article_json articles)),
           (lit ''trends'', trends),
           (lit ''strategy'', strategy),
           (lit ''risks'', risks),
           (lit ''voice_script'', voice_script)]"

text \<open>The body of the \<open>try\<close> block of \<open>_run_pipeline\<close>.\<close>

definition pipeline_try :: "env \<Rightarrow> str \<Rightarrow> bool \<Rightarrow> unit run" where
  "pipeline_try env topic include_voice =
     and_then (emit Executor ([128640] @ lit '' Pipeline started for topic: '' @ [39] @ topic @ [39]))
       (\<lambda>_.
          and_then (emit Data ([128269] @ lit '' [Data Agent] Searching for recent news...''))
            (\<lambda>_.
               and_then (data_agent env topic)
                 (\<lambda>articles.
                    if articles = []
                    then put (Error (lit ''No news articles retrieved. Pipeline aborted.''))
                    else
                      and_then
                        (emit Trend ([128200]
                           @ lit '' [Trend Agent] Detecting market trends and sentiment shifts...''))
                        (\<lambda>_.
                           and_then (trend_agent env articles)
                             (\<lambda>trends.
                                and_then
                                  (emit Strategy ([128161]
                                     @ lit '' [Strategy Agent] Generating strategic opportunities...''))
                                  (\<lambda>_.
                                     and_then (strategy_agent env trends)
                                       (\<lambda>strategy.
                                          and_then
                                            (emit Risk ([9888, 65039]
                                               @ lit ''  [Risk Agent] Identifying risks and weak signals...''))
                                            (\<lambda>_.
                                               and_then (risk_agent env trends strategy)
                                                 (\<lambda>risks.
                                                    and_then
                                                      (optional_voice env topic include_voice trends
                                                         strategy risks)
                                                      (\<lambda>voice_script.
                                                         and_then
                                                           (emit Executor ([9989] @ lit '' Pipeline complete.''))
                                                           (\<lambda>_.
                                                              put (Done (build_report topic articles trends
                                                                     strategy risks voice_script)))))))))))))"

text \<open>\<open>str(exc)\<close> in the handler of \<open>_run_pipeline\<close>.\<close>

definition exn_text :: "exn \<Rightarrow> str" where
  "exn_text e =
     (case e of
        JSONDecodeError \<Rightarrow> lit ''JSONDecodeError''
      | AttributeError m \<Rightarrow> m
      | TypeError m \<Rightarrow> m
      | ServiceError m \<Rightarrow> m)"

text \<open>
  \<open>_run_pipeline\<close>: the \<open>try\<close> block, the handler \<open>except Exception\<close> and the
  \<open>finally\<close> clause. The result is everything the thread puts on the queue of its run.
\<close>

definition run_pipeline :: "env \<Rightarrow> str \<Rightarrow> bool \<Rightarrow> event option list" where
  "run_pipeline env topic include_voice =
     (case pipeline_try env topic include_voice of
        (out, Inr _) \<Rightarrow> map Some out @ [None]
      | (out, Inl exc) \<Rightarrow>
          map Some out @ [Some (Error (lit ''Pipeline error: '' @ exn_text exc))] @ [None])"

text \<open>
  The server: \<open>runs\<close> is the table \<open>_runs\<close> from run identifiers to queues,
  \<open>threads\<close> lists the pipeline threads that were started, with their arguments.
\<close>

record server =
  runs :: "str \<rightharpoonup> event option list"
  threads :: "(str \<times> str \<times> bool) list"

text \<open>The body of a \<open>POST /run\<close> request: \<open>topic\<close> and \<open>include_voice\<close> may be missing.\<close>

record request =
  req_topic :: "str option"
  req_include_voice :: "bool option"

datatype response = Response nat json

text \<open>\<open>start_run\<close>; \<open>uuid\<close> is the identifier that \<open>uuid.uuid4()\<close> draws.\<close>

definition start_run :: "request \<Rightarrow> str \<Rightarrow> server \<Rightarrow> response \<times> server" where
  "start_run data uuid srv =
     (let topic = strip (case req_topic data of None \<Rightarrow> [] | Some t \<Rightarrow> t)
      in if topic = []
         then (Response 400 (JObj [(lit ''error'', JStr (lit ''topic is required''))]), srv)
         else
           (let include_voice = (case req_include_voice data of None \<Rightarrow> True | Some b \<Rightarrow> b);
                run_id = uuid
            in (Response 200 (JObj [(lit ''run_id'', JStr run_id)]),
                srv\<lparr>runs := (runs srv)(run_id \<mapsto> []),
                    threads := threads srv @ [(run_id, topic, include_voice)]\<rparr>)))"

text \<open>A started thread runs to its end: its queue receives what \<open>_run_pipeline\<close> puts.\<close>

definition run_thread :: "env \<Rightarrow> str \<times> str \<times> bool \<Rightarrow> server \<Rightarrow> server" where
  "run_thread env t srv =
     (case t of
        (run_id, topic, include_voice) \<Rightarrow>
          (case runs srv run_id of
             None \<Rightarrow> srv
           | Some q \<Rightarrow> srv\<lparr>runs := (runs srv)(run_id \<mapsto> q @ run_pipeline env topic include_voice)\<rparr>))"

text \<open>
  \<open>generate\<close>, the consumer of \<open>stream\<close>: it yields the messages of the queue in order
  and stops at the sentinel; what is behind the sentinel is never read.
\<close>

fun generate :: "event option list \<Rightarrow> event list" where
  "generate [] = []"
| "generate (None # q) = []"
| "generate (Some msg # q) = msg # generate q"

text \<open>
  \<open>stream\<close>: an unknown run identifier is answered with status 404; otherwise the
  messages of the run are streamed, and its entry is removed once the sentinel was read.
\<close>

definition stream :: "str \<Rightarrow> server \<Rightarrow> (nat + event list) \<times> server" where
  "stream run_id srv =
     (case runs srv run_id of
        None \<Rightarrow> (Inl 404, srv)
      | Some q \<Rightarrow>
          (Inr (generate q),
           if None \<in> set q then srv\<lparr>runs := (runs srv)(run_id := None)\<rparr> else srv))"

section \<open>Reading a queue\<close>

text \<open>
  The error messages, the reports of the completion events and the origins of the
  progress messages that a queue holds, each in the order of the queue, and the number
  of sentinels.
\<close>

definition errors_of :: "event option list \<Rightarrow> str list" where
  "errors_of q = concat (map (\<lambda>x. case x of Some (Error m) \<Rightarrow> [m] | _ \<Rightarrow> []) q)"

definition reports_of :: "event option list \<Rightarrow> json list" where
  "reports_of q = concat (map (\<lambda>x. case x of Some (Done r) \<Rightarrow> [r] | _ \<Rightarrow> []) q)"

definition origins_of :: "event option list \<Rightarrow> origin list" where
  "origins_of q = concat (map (\<lambda>x. case x of Some (Log og m) \<Rightarrow> [og] | _ \<Rightarrow> []) q)"

definition sentinels :: "event option list \<Rightarrow> nat" where
  "sentinels q = length (filter (\<lambda>x. x = None) q)"

definition is_log :: "event \<Rightarrow> bool" where
  "is_log ev = (case ev of Log _ _ \<Rightarrow> True | _ \<Rightarrow> False)"

definition is_terminal :: "event \<Rightarrow> bool" where
  "is_terminal ev = (case ev of Log _ _ \<Rightarrow> False | _ \<Rightarrow> True)"

section \<open>Properties of what a piece of the pipeline emits\<close>

text \<open>
  \<open>emits P m\<close>: every event that \<open>m\<close> emits satisfies \<open>P\<close>. \<open>from_stage og\<close> holds of
  the log messages of origin \<open>og\<close>. \<open>finishes m\<close>: when \<open>m\<close> returns, it has emitted
  log messages and then one terminal event; when it raises, it has emitted log messages
  only. \<open>voiceless\<close> holds of an event that is no Voice message and, when it is a
  completion event, carries a report whose \<open>voice_script\<close> is \<open>None\<close>.
\<close>

definition emits :: "(event \<Rightarrow> bool) \<Rightarrow> 'a run \<Rightarrow> bool" where
  "emits P m = list_all P (fst m)"

definition from_stage :: "origin \<Rightarrow> event \<Rightarrow> bool" where
  "from_stage og ev = (case ev of Log og' _ \<Rightarrow> og' = og | _ \<Rightarrow> False)"

definition finishes :: "unit run \<Rightarrow> bool" where
  "finishes m =
     (case m of
        (out, Inl e) \<Rightarrow> list_all is_log out
      | (out, Inr _) \<Rightarrow> out \<noteq> [] \<and> list_all is_log (butlast out) \<and> is_terminal (last out))"

definition voiceless :: "event \<Rightarrow> bool" where
  "voiceless ev =
     (case ev of
        Log og _ \<Rightarrow> og \<noteq> Voice
      | Error _ \<Rightarrow> True
      | Done report \<Rightarrow> py_get report (lit ''voice_script'') (JStr []) = Inr JNull)"

section \<open>Structured values\<close>







section \<open>Worlds for the examples\<close>

text \<open>
  \<open>canned hits reply\<close> is a world in which the search returns \<open>hits\<close> for every query
  and the reasoning service answers every message with \<open>reply\<close>; \<open>story t\<close> is a search
  hit with the title \<open>t\<close>.
\<close>

definition canned :: "hit list \<Rightarrow> str \<Rightarrow> env" where
  "canned hits reply = \<lparr>tavily = (\<lambda>_. Inr (Some hits)), reka = (\<lambda>_. Inr reply), repr = (\<lambda>_. [])\<rparr>"

definition story :: "str \<Rightarrow> hit" where
  "story t = \<lparr>title = Some t, url = Some (lit ''https://news.example/'' @ t), content = None,
              snippet = Some (lit ''text'')\<rparr>"

definition six_stories :: "hit list" where
  "six_stories = map story [lit ''A'', lit ''B'', lit ''C'', lit ''D'', lit ''E'', lit ''F'']"



section \<open>Proofs\<close>

subsection \<open>The pieces of a run\<close>

lemma and_then_ok [simp]: "and_then (ok x) f = f x"
  by (simp add: and_then_def ok_def split: prod.splits)

lemma and_then_call_Inr [simp]: "and_then (call (Inr x)) f = f x"
  by (simp add: and_then_def call_def split: prod.splits)

lemma and_then_call_Inl [simp]: "and_then (call (Inl e)) f = ([], Inl e)"
  by (simp add: and_then_def call_def)

lemma and_then_put: "and_then (put ev) f = (ev # fst (f ()), snd (f ()))"
  by (simp add: and_then_def put_def split: prod.splits)

lemma emits_ok [intro!, simp]: "emits P (ok x)"
  by (simp add: emits_def ok_def)

lemma emits_call [intro!, simp]: "emits P (call r)"
  by (simp add: emits_def call_def)

lemma emits_raise [intro!, simp]: "emits P (raise e)"
  by (simp add: emits_def raise_def)

lemma emits_put [simp]: "emits P (put ev) = P ev"
  by (simp add: emits_def put_def)

lemma emits_and_then [intro!]:
  assumes "emits P m" and "\<And>x. emits P (f x)"
  shows "emits P (and_then m f)"
proof (cases m)
  case (Pair out r)
  show ?thesis
  proof (cases r)
    case (Inl e)
    with Pair assms(1) show ?thesis
      by (simp add: emits_def and_then_def)
  next
    case (Inr x)
    obtain out' r' where fx: "f x = (out', r')"
      by (cases "f x")
    from assms(2) [of x] fx have "list_all P out'"
      by (simp add: emits_def)
    with Pair Inr fx assms(1) show ?thesis
      by (simp add: emits_def and_then_def)
  qed
qed

lemma emits_mono: "emits P m \<Longrightarrow> (\<And>ev. P ev \<Longrightarrow> Q ev) \<Longrightarrow> emits Q m"
  by (auto simp: emits_def list_all_iff)

lemma emits_log [simp]: "emits (from_stage og) (log og m)"
  by (simp add: log_def from_stage_def)

lemma emits_log_all [intro!, simp]: "emits (from_stage og) (log_all og ms)"
  by (induction ms) auto

lemma emits_emit [simp]: "emits (from_stage og) (emit og m)"
  by (simp add: emit_def from_stage_def)

lemma emits_parse_or [intro!, simp]: "emits P (parse_or raw fb)"
  by (simp add: parse_or_def split: sum.splits)

lemma summarise_emits [intro!, simp]: "emits (from_stage Data) (summarise env items)"
  by (induction items) (auto simp: Let_def)

lemma data_agent_emits [intro!, simp]: "emits (from_stage Data) (data_agent env topic)"
  by (auto simp: data_agent_def Let_def)

lemma trend_agent_emits [intro!, simp]: "emits (from_stage Trend) (trend_agent env articles)"
  by (auto simp: trend_agent_def Let_def)

lemma strategy_agent_emits [intro!, simp]: "emits (from_stage Strategy) (strategy_agent env t)"
  by (auto simp: strategy_agent_def Let_def)

lemma risk_agent_emits [intro!, simp]: "emits (from_stage Risk) (risk_agent env t s)"
  by (auto simp: risk_agent_def Let_def)

lemma voice_agent_emits [intro!, simp]: "emits (from_stage Voice) (voice_agent env b)"
  by (auto simp: voice_agent_def Let_def)


lemma finishes_put [simp]: "finishes (put ev) = is_terminal ev"
  by (simp add: finishes_def put_def)

lemma finishes_and_then [intro!]:
  assumes "emits is_log m" and "\<And>x. finishes (f x)"
  shows "finishes (and_then m f)"
proof (cases m)
  case (Pair out r)
  show ?thesis
  proof (cases r)
    case (Inl e)
    with Pair assms(1) show ?thesis
      by (simp add: emits_def and_then_def finishes_def)
  next
    case (Inr x)
    obtain out' r' where fx: "f x = (out', r')"
      by (cases "f x")
    from Pair assms(1) have logs: "list_all is_log out"
      by (simp add: emits_def)
    show ?thesis
    proof (cases r')
      case (Inl e)
      with assms(2) [of x] fx have "list_all is_log out'"
        by (simp add: finishes_def)
      with Pair Inr fx Inl logs show ?thesis
        by (simp add: and_then_def finishes_def)
    next
      case (Inr u)
      with assms(2) [of x] fx have "out' \<noteq> []" "list_all is_log (butlast out')" "is_terminal (last out')"
        by (simp_all add: finishes_def)
      with Pair \<open>r = Inr x\<close> fx Inr logs show ?thesis
        by (simp add: and_then_def finishes_def butlast_append)
    qed
  qed
qed

lemma from_stage_is_log: "from_stage og ev \<Longrightarrow> is_log ev"
  by (cases ev) (simp_all add: from_stage_def is_log_def)

lemma emits_is_log: "emits (from_stage og) m \<Longrightarrow> emits is_log m"
  by (erule emits_mono) (rule from_stage_is_log)

lemmas stage_logs =
  data_agent_emits [THEN emits_is_log] trend_agent_emits [THEN emits_is_log]
  strategy_agent_emits [THEN emits_is_log] risk_agent_emits [THEN emits_is_log]
  voice_agent_emits [THEN emits_is_log] emits_emit [THEN emits_is_log]

lemma optional_voice_logs: "emits is_log (optional_voice env topic iv t s r)"
  by (auto simp: optional_voice_def stage_logs)

lemma pipeline_try_finishes: "finishes (pipeline_try env topic iv)"
  by (auto simp: pipeline_try_def is_terminal_def stage_logs optional_voice_logs)

subsection \<open>The end of the stream\<close>

lemma generate_until_sentinel: "generate (map Some evs @ None # later) = evs"
  by (induction evs) simp_all

lemma sentinels_one: "sentinels (map Some evs @ [None]) = 1"
  by (induction evs) (simp_all add: sentinels_def)

lemma origins_of_simps [simp]:
  "origins_of [] = []"
  "origins_of (None # q) = origins_of q"
  "origins_of (Some (Log og m) # q) = og # origins_of q"
  "origins_of (Some (Error m) # q) = origins_of q"
  "origins_of (Some (Done r) # q) = origins_of q"
  by (simp_all add: origins_of_def)

lemma reports_of_simps [simp]:
  "reports_of [] = []"
  "reports_of (None # q) = reports_of q"
  "reports_of (Some (Log og m) # q) = reports_of q"
  "reports_of (Some (Error m) # q) = reports_of q"
  "reports_of (Some (Done r) # q) = r # reports_of q"
  by (simp_all add: reports_of_def)

lemma errors_of_simps [simp]:
  "errors_of [] = []"
  "errors_of (None # q) = errors_of q"
  "errors_of (Some (Log og m) # q) = errors_of q"
  "errors_of (Some (Error m) # q) = m # errors_of q"
  "errors_of (Some (Done r) # q) = errors_of q"
  by (simp_all add: errors_of_def)

lemma run_pipeline_shape:
  "\<exists>evs. run_pipeline env topic iv = map Some evs @ [None]
         \<and> evs \<noteq> [] \<and> list_all is_log (butlast evs) \<and> is_terminal (last evs)"
proof (cases "pipeline_try env topic iv")
  case (Pair out r)
  show ?thesis
  proof (cases r)
    case (Inl exc)
    let ?evs = "out @ [Error (lit ''Pipeline error: '' @ exn_text exc)]"
    from pipeline_try_finishes [of env topic iv] Pair Inl have "list_all is_log out"
      by (simp add: finishes_def)
    then have "?evs \<noteq> [] \<and> list_all is_log (butlast ?evs) \<and> is_terminal (last ?evs)"
      by (simp add: is_terminal_def)
    moreover from Pair Inl have "run_pipeline env topic iv = map Some ?evs @ [None]"
      by (simp add: run_pipeline_def)
    ultimately show ?thesis
      by blast
  next
    case (Inr u)
    from pipeline_try_finishes [of env topic iv] Pair Inr
    have "out \<noteq> [] \<and> list_all is_log (butlast out) \<and> is_terminal (last out)"
      by (simp add: finishes_def)
    moreover from Pair Inr have "run_pipeline env topic iv = map Some out @ [None]"
      by (simp add: run_pipeline_def)
    ultimately show ?thesis
      by blast
  qed
qed

text \<open>
  Claim C3. Whatever path a run takes (completion, the abort on an empty search, an
  exception in a stage), its queue is a sequence of events followed by exactly one
  sentinel, which is the last thing written. The events are log messages except for the
  last one, which is the completion or the error event. The consumer yields these events
  in the order they were put and stops at the sentinel: it yields nothing of what might
  be put after it.
\<close>

theorem end_of_stream_last:
  "\<exists>evs. run_pipeline env topic include_voice = map Some evs @ [None]
         \<and> evs \<noteq> [] \<and> list_all is_log (butlast evs) \<and> is_terminal (last evs)
         \<and> sentinels (run_pipeline env topic include_voice) = 1
         \<and> generate (run_pipeline env topic include_voice) = evs
         \<and> generate (run_pipeline env topic include_voice @ later) = evs"
proof -
  obtain evs where q: "run_pipeline env topic include_voice = map Some evs @ [None]"
    and e: "evs \<noteq> []" "list_all is_log (butlast evs)" "is_terminal (last evs)"
    using run_pipeline_shape by blast
  have "sentinels (run_pipeline env topic include_voice) = 1"
    by (simp only: q sentinels_one)
  moreover have "generate (run_pipeline env topic include_voice) = evs"
    using generate_until_sentinel [of evs "[]"] by (simp add: q)
  moreover have "generate (run_pipeline env topic include_voice @ later) = evs"
    using generate_until_sentinel [of evs later] by (simp add: q)
  ultimately show ?thesis
    using q e by blast
qed

subsection \<open>Runs without the Voice stage\<close>

lemma from_stage_voiceless: "from_stage og ev \<Longrightarrow> og \<noteq> Voice \<Longrightarrow> voiceless ev"
  by (cases ev) (simp_all add: from_stage_def voiceless_def)

lemma emits_voiceless: "emits (from_stage og) m \<Longrightarrow> og \<noteq> Voice \<Longrightarrow> emits voiceless m"
  by (erule emits_mono) (rule from_stage_voiceless)

lemma report_voice_null:
  "py_get (build_report topic articles trends strategy risks JNull) (lit ''voice_script'') d
     = Inr JNull"
  by (simp add: build_report_def py_get_def)

lemma stage_voiceless:
  "emits voiceless (data_agent env topic)"
  "emits voiceless (trend_agent env articles)"
  "emits voiceless (strategy_agent env t)"
  "emits voiceless (risk_agent env t s)"
  "og \<noteq> Voice \<Longrightarrow> emits voiceless (emit og m)"
  using emits_voiceless [OF data_agent_emits, of env topic]
    emits_voiceless [OF trend_agent_emits, of env articles]
    emits_voiceless [OF strategy_agent_emits, of env t]
    emits_voiceless [OF risk_agent_emits, of env t s]
    emits_voiceless [OF emits_emit, of og m]
  by simp_all

lemma pipeline_try_voiceless: "emits voiceless (pipeline_try env topic False)"
  by (auto simp: pipeline_try_def optional_voice_def stage_voiceless voiceless_def
      build_report_def py_get_def)

lemma voiceless_queue:
  "list_all voiceless evs \<Longrightarrow>
     Voice \<notin> set (origins_of (map Some evs @ [None]))
     \<and> list_all (\<lambda>report. py_get report (lit ''voice_script'') (JStr []) = Inr JNull)
          (reports_of (map Some evs @ [None]))"
proof (induction evs)
  case Nil
  show ?case by simp
next
  case (Cons ev evs)
  then have "voiceless ev" and
    ih: "Voice \<notin> set (origins_of (map Some evs @ [None]))
         \<and> list_all (\<lambda>report. py_get report (lit ''voice_script'') (JStr []) = Inr JNull)
              (reports_of (map Some evs @ [None]))"
    by simp_all
  then show ?case
    by (cases ev) (simp_all add: voiceless_def)
qed

text \<open>
  Claim C8. A run that was started with \<open>include_voice = False\<close> puts no message of
  the Voice stage on its queue, and the report of its completion event, when there is
  one, has \<open>None\<close> under \<open>voice_script\<close>.
\<close>

theorem no_voice_unless_requested:
  "Voice \<notin> set (origins_of (run_pipeline env topic False))
   \<and> list_all (\<lambda>report. py_get report (lit ''voice_script'') (JStr []) = Inr JNull)
        (reports_of (run_pipeline env topic False))"
proof (cases "pipeline_try env topic False")
  case (Pair out r)
  with pipeline_try_voiceless [of env topic] have v: "list_all voiceless out"
    by (simp add: emits_def)
  show ?thesis
  proof (cases r)
    case (Inl exc)
    from v have "list_all voiceless (out @ [Error (lit ''Pipeline error: '' @ exn_text exc)])"
      by (simp add: voiceless_def)
    from voiceless_queue [OF this] Pair Inl show ?thesis
      by (simp add: run_pipeline_def)
  next
    case (Inr u)
    from voiceless_queue [OF v] Pair Inr show ?thesis
      by (simp add: run_pipeline_def)
  qed
qed

subsection \<open>Starting a run\<close>

lemma strip_all_space: "list_all py_isspace t \<Longrightarrow> strip t = []"
proof -
  assume "list_all py_isspace t"
  then have "dropWhile py_isspace t = []"
    by (simp add: list_all_iff)
  then have "strip t = rev (dropWhile py_isspace (rev []))"
    by (simp only: strip_def)
  then show ?thesis
    by simp
qed

lemma strip_Nil: "strip [] = []"
  by (simp add: strip_def)

text \<open>
  Claim C6. \<open>start_run\<close> with an empty topic, or with no topic at all, answers with
  status 400 and the error \<open>topic is required\<close>: the answer carries no run identifier,
  and the server is unchanged, so no queue was created and no thread was started.
\<close>

theorem start_run_empty_topic:
  "start_run \<lparr>req_topic = Some [], req_include_voice = flag\<rparr> uuid srv =
     (Response 400 (JObj [(lit ''error'', JStr (lit ''topic is required''))]), srv)
   \<and> start_run \<lparr>req_topic = None, req_include_voice = flag\<rparr> uuid srv =
     (Response 400 (JObj [(lit ''error'', JStr (lit ''topic is required''))]), srv)"
  by (simp add: start_run_def strip_Nil)

text \<open>
  Claim C10. The topic is stripped before it is tested, so a topic that consists of
  white space only is refused exactly as the empty topic is: status 400, and the server
  is unchanged.
\<close>

theorem start_run_blank_topic:
  assumes "list_all py_isspace topic"
  shows "start_run \<lparr>req_topic = Some topic, req_include_voice = flag\<rparr> uuid srv =
           (Response 400 (JObj [(lit ''error'', JStr (lit ''topic is required''))]), srv)
         \<and> start_run \<lparr>req_topic = Some topic, req_include_voice = flag\<rparr> uuid srv =
           start_run \<lparr>req_topic = Some [], req_include_voice = flag\<rparr> uuid srv"
  using assms by (simp add: start_run_def strip_Nil strip_all_space)

theorem start_run_blank_topic_witness:
  "list_all py_isspace [32, 9, 10, 160, 8195]
   \<and> start_run \<lparr>req_topic = Some [32, 9, 10, 160, 8195], req_include_voice = Some True\<rparr>
         (lit ''run-1'') \<lparr>runs = Map.empty, threads = []\<rparr> =
       (Response 400 (JObj [(lit ''error'', JStr (lit ''topic is required''))]),
        \<lparr>runs = Map.empty, threads = []\<rparr>)
   \<and> start_run \<lparr>req_topic = Some (lit ''AI''), req_include_voice = Some True\<rparr>
         (lit ''run-1'') \<lparr>runs = Map.empty, threads = []\<rparr> \<noteq>
       (Response 400 (JObj [(lit ''error'', JStr (lit ''topic is required''))]),
        \<lparr>runs = Map.empty, threads = []\<rparr>)"
proof -
  have h: "list_all py_isspace [32, 9, 10, 160, 8195]"
    by (simp add: py_isspace_def)
  show ?thesis
    using h start_run_blank_topic [OF h, of "Some True" "lit ''run-1''" "\<lparr>runs = Map.empty, threads = []\<rparr>"]
    by (simp add: start_run_def strip_def py_isspace_def Let_def)
qed

subsection \<open>Evaluating the decoder and the stages\<close>

lemma scan_once_numeral [simp]:
  "scan_once (numeral k) s = scan_value (JSONObject (pred_numeral k)) (JSONArray (pred_numeral k)) s"
  by (simp add: numeral_eq_Suc)

lemma array_values_numeral [simp]:
  "array_values (numeral k) s = array_step (scan_once (pred_numeral k)) (array_values (pred_numeral k)) s"
  by (simp add: numeral_eq_Suc)

lemma object_pairs_numeral [simp]:
  "object_pairs (numeral k) s = object_step (scan_once (pred_numeral k)) (object_pairs (pred_numeral k)) s"
  by (simp add: numeral_eq_Suc)




lemma chat_canned: "chat (canned hits reply) system user = Inr (strip reply)"
  by (simp add: chat_def canned_def)


lemma tavily_canned: "tavily (canned hits reply) topic = Inr (Some hits)"
  by (simp add: canned_def)

lemma snd_and_then: "snd (and_then m f) = (case snd m of Inl e \<Rightarrow> Inl e | Inr x \<Rightarrow> snd (f x))"
  by (cases m) (auto simp: and_then_def split: sum.splits prod.splits)

lemma snd_run_simps [simp]:
  "snd (ok x) = Inr x"
  "snd (call r) = r"
  "snd (put ev) = Inr ()"
  "snd (log og msg) = Inr ()"
  "snd (emit og msg) = Inr ()"
  by (simp_all add: ok_def call_def put_def log_def emit_def)

lemma and_then_pair:
  "and_then (out, Inr x) f = (out @ fst (f x), snd (f x))"
  "and_then (out, Inl e) f = (out, Inl e)"
  by (simp_all add: and_then_def split: prod.splits)

lemma fst_run_simps [simp]:
  "fst (ok x) = []"
  "fst (call r) = []"
  "fst (put ev) = [ev]"
  by (simp_all add: ok_def call_def put_def)

lemma snd_log_all [simp]: "snd (log_all og ms) = Inr ()"
  by (induction ms) (simp_all add: snd_and_then)


subsection \<open>The Data stage\<close>

lemma summarise_result:
  "snd (summarise env items) = Inr articles \<Longrightarrow>
     length articles = length items
     \<and> map headline articles = map hit_headline items
     \<and> map source articles = map hit_source items
     \<and> map (\<lambda>a. Inr (summary a)) articles =
         map (\<lambda>h. chat env summary_system (summary_user (hit_headline h) (hit_content h))) items"
proof (induction items arbitrary: articles)
  case Nil
  then show ?case by simp
next
  case (Cons item items)
  let ?reply = "chat env summary_system (summary_user (hit_headline item) (hit_content item))"
  from Cons.prems obtain s where s: "?reply = Inr s"
    by (cases ?reply) (simp_all add: snd_and_then Let_def)
  from Cons.prems s obtain rest where rest: "snd (summarise env items) = Inr rest"
    by (cases "snd (summarise env items)") (simp_all add: snd_and_then Let_def)
  from Cons.prems s rest
  have "articles = \<lparr>headline = hit_headline item, source = hit_source item, summary = s\<rparr> # rest"
    by (simp add: snd_and_then Let_def)
  with Cons.IH [OF rest] s show ?case
    by simp
qed

text \<open>
  Claim C7. When the Data stage returns, it returns one article for each of the first
  \<open>MAX_ARTICLES = 5\<close> hits of the search, in the order of the hits: the headlines and the
  sources are those of the hits, position by position, and each summary is the reply to
  the summary request for its hit. So there are at most five articles, and they are not
  re-sorted.
\<close>

theorem data_agent_cap_and_order:
  assumes "snd (data_agent env topic) = Inr articles"
  shows "\<exists>body hits. tavily env topic = Inr body
           \<and> hits = take MAX_ARTICLES (case body of None \<Rightarrow> [] | Some found \<Rightarrow> found)
           \<and> MAX_ARTICLES = 5
           \<and> length articles \<le> 5
           \<and> length articles = length hits
           \<and> map headline articles = map hit_headline hits
           \<and> map source articles = map hit_source hits
           \<and> map (\<lambda>a. Inr (summary a)) articles =
               map (\<lambda>h. chat env summary_system (summary_user (hit_headline h) (hit_content h))) hits"
proof -
  from assms obtain body where body: "tavily env topic = Inr body"
    by (cases "tavily env topic") (simp_all add: data_agent_def snd_and_then)
  let ?raw = "case body of None \<Rightarrow> [] | Some found \<Rightarrow> found"
  let ?hits = "take MAX_ARTICLES ?raw"
  have "length articles = length ?hits
        \<and> map headline articles = map hit_headline ?hits
        \<and> map source articles = map hit_source ?hits
        \<and> map (\<lambda>a. Inr (summary a)) articles =
            map (\<lambda>h. chat env summary_system (summary_user (hit_headline h) (hit_content h))) ?hits"
  proof (cases "?raw = []")
    case True
    with assms body show ?thesis
      by (simp add: data_agent_def snd_and_then)
  next
    case False
    with assms body have "snd (summarise env ?hits) = Inr articles"
      by (simp add: data_agent_def snd_and_then)
    then show ?thesis
      by (rule summarise_result)
  qed
  moreover have "length ?hits \<le> 5"
    by (simp add: MAX_ARTICLES_def)
  ultimately show ?thesis
    using body by (simp add: MAX_ARTICLES_def)
qed

lemma data_six:
  "snd (data_agent (canned six_stories (lit '' s '')) (lit ''AI'')) =
     Inr (map (\<lambda>t. \<lparr>headline = t, source = lit ''https://news.example/'' @ t, summary = lit ''s''\<rparr>)
            [lit ''A'', lit ''B'', lit ''C'', lit ''D'', lit ''E''])"
  by (simp add: data_agent_def six_stories_def MAX_ARTICLES_def story_def hit_headline_def
        hit_source_def hit_content_def snd_and_then chat_canned tavily_canned Let_def
        strip_def py_isspace_def)

theorem data_agent_cap_and_order_witness:
  "snd (data_agent (canned six_stories (lit '' s '')) (lit ''AI'')) =
     Inr (map (\<lambda>t. \<lparr>headline = t, source = lit ''https://news.example/'' @ t, summary = lit ''s''\<rparr>)
            [lit ''A'', lit ''B'', lit ''C'', lit ''D'', lit ''E''])
   \<and> length six_stories = 6
   \<and> map hit_headline (take MAX_ARTICLES six_stories) =
       [lit ''A'', lit ''B'', lit ''C'', lit ''D'', lit ''E'']"
  using data_six data_agent_cap_and_order [OF data_six]
  by (simp add: six_stories_def MAX_ARTICLES_def story_def hit_headline_def)

subsection \<open>The fallback of the three extracting stages\<close>





subsection \<open>A search without hits\<close>

text \<open>
  Claim C2. When the search of the Data stage has no hits (an empty \<open>results\<close> list, or
  none at all), the queue holds exactly one error event, with the fixed message, and no
  completion event; its log messages are the start message of the run and three messages
  of the Data stage, so none of the Trend, Strategy, Risk or Voice stage; the sentinel
  is last. No later stage runs: the reasoning service is not consulted, the queue is the
  same whatever it would answer.
\<close>

theorem empty_search_aborts:
  assumes "tavily env topic = Inr body"
    and "(case body of None \<Rightarrow> [] | Some found \<Rightarrow> found) = []"
  shows "errors_of (run_pipeline env topic include_voice) =
           [lit ''No news articles retrieved. Pipeline aborted.'']
       \<and> reports_of (run_pipeline env topic include_voice) = []
       \<and> origins_of (run_pipeline env topic include_voice) = [Executor, Data, Data, Data]
       \<and> length (run_pipeline env topic include_voice) = 6
       \<and> last (run_pipeline env topic include_voice) = None
       \<and> run_pipeline (env\<lparr>reka := other\<rparr>) topic include_voice =
           run_pipeline env topic include_voice"
  using assms
  by (simp add: run_pipeline_def pipeline_try_def data_agent_def and_then_put and_then_pair
        emit_def log_def)

theorem empty_search_aborts_witness:
  "tavily (canned [] []) (lit ''AI'') = Inr (Some [])
   \<and> errors_of (run_pipeline (canned [] []) (lit ''AI'') True) =
       [lit ''No news articles retrieved. Pipeline aborted.'']
   \<and> reports_of (run_pipeline (canned [] []) (lit ''AI'') True) = []
   \<and> origins_of (run_pipeline (canned [] []) (lit ''AI'') True) = [Executor, Data, Data, Data]"
proof -
  have h: "tavily (canned [] []) (lit ''AI'') = Inr (Some [])"
    by (simp add: canned_def)
  show ?thesis
    using h empty_search_aborts [OF h, of True] by simp
qed

subsection \<open>Replies that fail to parse into the expected shape\<close>





lemma fst_log [simp]: "fst (log og msg) = [Log og msg]" "fst (emit og msg) = [Log og msg]"
  by (simp_all add: log_def emit_def)

lemma of_append [simp]:
  "errors_of (a @ b) = errors_of a @ errors_of b"
  "reports_of (a @ b) = reports_of a @ reports_of b"
  by (simp_all add: errors_of_def reports_of_def)



















subsection \<open>Encoding a structured value and extracting it again\<close>











































end
